theory Spec2Isabelle
  imports Main "HOL-Library.Char_ord"
begin

section \<open>The autosite package: routes inferred from template files\<close>

text \<open>
  The development embeds the Go package \<^verbatim>\<open>autosite\<close>. The package is present in two
  revisions; the later one (with \<^verbatim>\<open>AddRedirect\<close> and the \<^verbatim>\<open>redirectURI\<close> field) is the one
  embedded. \<^verbatim>\<open>parsePath\<close>, \<^verbatim>\<open>getDate\<close>, \<^verbatim>\<open>getFiles\<close>, \<^verbatim>\<open>before\<close> and \<^verbatim>\<open>ChangeURI\<close> are
  the same text in both revisions.

  What the package takes from its surroundings is a parameter of the model:
  \<^item> \<^verbatim>\<open>filepath.Glob\<close> is a function \<open>globf\<close> from the pattern to the matches on disk or
    an error;
  \<^item> \<^verbatim>\<open>template.ParseFiles\<close> is a predicate \<open>parses\<close> on the list of files, telling whether
    they compile (\<^verbatim>\<open>template.Must\<close> panics when they do not);
  \<^item> \<^verbatim>\<open>ExecuteTemplate\<close> is a function \<open>exec\<close> giving the rendered body or a failure.
  \<^verbatim>\<open>log.Fatalf\<close> ends the process and a panic unwinds it: both are the \<open>Inl\<close> branch of the
  result, which carries the reason.
\<close>

subsection \<open>Library functions on strings\<close>

text \<open>\<^verbatim>\<open>strings.HasPrefix\<close> and \<^verbatim>\<open>strings.HasSuffix\<close>, by length and slice as in Go.\<close>

definition HasPrefix :: "string \<Rightarrow> string \<Rightarrow> bool" where
  "HasPrefix s pre = (length pre \<le> length s \<and> take (length pre) s = pre)"

definition HasSuffix :: "string \<Rightarrow> string \<Rightarrow> bool" where
  "HasSuffix s suf = (length suf \<le> length s \<and> drop (length s - length suf) s = suf)"

text \<open>\<^verbatim>\<open>strings.TrimSuffix\<close>: the suffix is cut off once when present.\<close>

definition TrimSuffix :: "string \<Rightarrow> string \<Rightarrow> string" where
  "TrimSuffix s suf = (if HasSuffix s suf then take (length s - length suf) s else s)"

text \<open>\<^verbatim>\<open>strings.Contains\<close>: the substring starts at some position of the string.\<close>

fun Contains :: "string \<Rightarrow> string \<Rightarrow> bool" where
  "Contains [] sub = (sub = [])"
| "Contains (c # cs) sub = (HasPrefix (c # cs) sub \<or> Contains cs sub)"

text \<open>
  \<^verbatim>\<open>strings.Split\<close> with a separator of one byte, which is how the package calls it
  (\<^verbatim>\<open>strings.Split(p, "/")\<close>). The empty string gives one empty segment.
\<close>

fun Split :: "string \<Rightarrow> char \<Rightarrow> string list" where
  "Split [] sep = [[]]"
| "Split (c # cs) sep =
     (if c = sep then [] # Split cs sep
      else (case Split cs sep of
              [] \<Rightarrow> [[c]]
            | w # ws \<Rightarrow> (c # w) # ws))"

text \<open>\<^verbatim>\<open>strings.Join\<close>.\<close>

fun Join :: "string list \<Rightarrow> string \<Rightarrow> string" where
  "Join [] sep = []"
| "Join [a] sep = a"
| "Join (a # b # bs) sep = a @ sep @ Join (b # bs) sep"

subsection \<open>\<^verbatim>\<open>strconv.ParseInt\<close> in base 10\<close>

datatype num_error = ErrSyntax | ErrRange

text \<open>
  The size of \<^verbatim>\<open>int\<close>, which a bit size of 0 stands for: 64 on the platform taken here.
  The bounds that \<^verbatim>\<open>getDate\<close> tests lie far inside the range of 32 bits as well.
\<close>

definition IntSize :: nat where
  "IntSize = 64"

definition maxUint64 :: nat where
  "maxUint64 = 2 ^ 64 - 1"

definition is_digit :: "char \<Rightarrow> bool" where
  "is_digit d = (CHR ''0'' \<le> d \<and> d \<le> CHR ''9'')"

definition digit_val :: "char \<Rightarrow> nat" where
  "digit_val d = of_char d - of_char (CHR ''0'')"

text \<open>
  The digit loop of \<^verbatim>\<open>ParseUint\<close>: a byte that is no digit is a syntax error; the
  accumulator is checked against the cutoff before it is multiplied, and the sum against
  the wrap-around of 64 bits and against the largest value of the bit size.
\<close>

fun ParseUint_loop :: "nat \<Rightarrow> nat \<Rightarrow> string \<Rightarrow> num_error + nat" where
  "ParseUint_loop maxVal n [] = Inr n"
| "ParseUint_loop maxVal n (d # ds) =
     (if \<not> is_digit d then Inl ErrSyntax
      else if n \<ge> maxUint64 div 10 + 1 then Inl ErrRange
      else (let n1 = n * 10 + digit_val d in
            if n1 > maxUint64 \<or> n1 > maxVal then Inl ErrRange
            else ParseUint_loop maxVal n1 ds))"

definition ParseUint :: "string \<Rightarrow> nat \<Rightarrow> num_error + nat" where
  "ParseUint s bitSize =
     (let bs = (if bitSize = 0 then IntSize else bitSize) in
      if s = [] then Inl ErrSyntax
      else ParseUint_loop (2 ^ bs - 1) 0 s)"

text \<open>
  \<^verbatim>\<open>ParseInt\<close>: an optional sign, then \<^verbatim>\<open>ParseUint\<close>, then the check against the signed range
  of the bit size. Every branch that returns a non-nil error is \<open>Inl\<close>.
\<close>

definition ParseInt :: "string \<Rightarrow> nat \<Rightarrow> num_error + int" where
  "ParseInt s bitSize =
     (if s = [] then Inl ErrSyntax
      else
        (let neg = (hd s = CHR ''-'');
             s' = (if hd s = CHR ''+'' \<or> hd s = CHR ''-'' then tl s else s);
             bs = (if bitSize = 0 then IntSize else bitSize);
             cutoff = (2::nat) ^ (bs - 1)
         in case ParseUint s' bitSize of
              Inl e \<Rightarrow> Inl e
            | Inr un \<Rightarrow>
                if \<not> neg \<and> un \<ge> cutoff then Inl ErrRange
                else if neg \<and> un > cutoff then Inl ErrRange
                else Inr (if neg then - int un else int un)))"

subsection \<open>Data model\<close>

text \<open>\<^verbatim>\<open>type year int\<close> and \<^verbatim>\<open>time.Month\<close> are Go integers.\<close>

record date =
  Year :: int
  Month :: int

text \<open>The zero value \<^verbatim>\<open>date{}\<close>.\<close>

definition date_zero :: date where
  "date_zero = \<lparr>Year = 0, Month = 0\<rparr>"

text \<open>
  A compiled template is known by the files it was parsed from; a nil \<^verbatim>\<open>*template.Template\<close>
  is \<open>None\<close>.
\<close>

datatype template = Template "string list"

text \<open>
  The \<^verbatim>\<open>Data\<close> field is an \<^verbatim>\<open>interface{}\<close>; \<open>None\<close> is nil, the only value the package
  itself stores.
\<close>

record page =
  Title :: string
  Date :: date
  URI :: string
  Data :: "string option"
  redirectURI :: string
  tmpl :: "template option"

record Site =
  liveDomain :: string
  title :: string
  glob :: string
  templates :: "string list"
  pages :: "string \<rightharpoonup> page"

text \<open>
  The ways an operation fails: the errors the package builds with \<^verbatim>\<open>fmt.Errorf\<close>, the
  error of \<^verbatim>\<open>filepath.Glob\<close>, the two \<^verbatim>\<open>log.Fatalf\<close> calls of the mutators, and the panic of
  \<^verbatim>\<open>template.Must\<close>.
\<close>

datatype failure =
    GlobError string
  | NoPagesFound
  | BadTemplatePath string
  | BadYear string
  | BadMonth string
  | NoPageWithURI string
  | AlreadyRegistered string
  | TemplateMustPanic "string list"

subsection \<open>Dates\<close>

definition before :: "date \<Rightarrow> date \<Rightarrow> bool" where
  "before d other =
     (if Year d < Year other then True
      else if Year d = Year other then Month d < Month other
      else False)"

definition getDate :: "string \<Rightarrow> string \<Rightarrow> failure + date" where
  "getDate y m =
     (case ParseInt y 0 of
        Inl e \<Rightarrow> Inl (BadYear y)
      | Inr y64 \<Rightarrow>
          if y64 \<le> 1900 \<or> y64 \<ge> 99999 then Inl (BadYear y)
          else (case ParseInt m 0 of
                  Inl e \<Rightarrow> Inl (BadMonth m)
                | Inr month \<Rightarrow>
                    if month < 1 \<or> month > 12 then Inl (BadMonth m)
                    else Inr \<lparr>Year = y64, Month = month\<rparr>))"

subsection \<open>Paths\<close>

definition parsePath :: "string \<Rightarrow> failure + (string \<times> date)" where
  "parsePath p =
     (let parts = Split p (CHR ''/'') in
      if length parts = 2 then
        Inr (''/'' @ TrimSuffix (parts ! 1) ''.tmpl'', date_zero)
      else if length parts = 4 then
        (let uri = ''/'' @ Join [parts ! 1, parts ! 2, TrimSuffix (parts ! 3) ''.tmpl''] ''/''
         in case getDate (parts ! 1) (parts ! 2) of
              Inl e \<Rightarrow> Inl e
            | Inr d \<Rightarrow> Inr (uri, d))
      else Inl (BadTemplatePath p))"

subsection \<open>Discovery\<close>

text \<open>
  The loop of \<^verbatim>\<open>getFiles\<close> over the matches: \<open>r\<close> is the slice made with the length of
  \<^verbatim>\<open>paths\<close>, \<open>i\<close> the next free index. A path containing \<^verbatim>\<open>.#\<close> is skipped.
\<close>

fun getFiles_loop :: "string list \<Rightarrow> nat \<Rightarrow> string list \<Rightarrow> string list \<times> nat" where
  "getFiles_loop r i [] = (r, i)"
| "getFiles_loop r i (p # ps) =
     (if Contains p ''.#'' then getFiles_loop r i ps
      else getFiles_loop (r[i := p]) (Suc i) ps)"

definition getFiles :: "(string \<Rightarrow> failure + string list) \<Rightarrow> Site \<Rightarrow> failure + string list" where
  "getFiles globf s =
     (case globf (glob s) of
        Inl err \<Rightarrow> Inl err
      | Inr paths \<Rightarrow>
          if length paths = 0 then Inl NoPagesFound
          else (let (r, i) = getFiles_loop (replicate (length paths) []) 0 paths
                in Inr (take i r)))"

subsection \<open>The registry\<close>

definition addPage ::
  "(string list \<Rightarrow> bool) \<Rightarrow> Site \<Rightarrow> string \<Rightarrow> date \<Rightarrow> string option \<Rightarrow> string list \<Rightarrow> failure + Site"
where
  "addPage parses s uri d data tmpls =
     (if length tmpls > 0 \<and> \<not> parses tmpls then Inl (TemplateMustPanic tmpls)
      else
        (let t = (if length tmpls > 0 then Some (Template tmpls) else None)
         in Inr (s\<lparr>pages := (pages s)(uri \<mapsto>
               \<lparr>Title = title s, Date = d, URI = uri, Data = data,
                redirectURI = [], tmpl = t\<rparr>)\<rparr>)))"

fun read_loop :: "(string list \<Rightarrow> bool) \<Rightarrow> Site \<Rightarrow> string list \<Rightarrow> failure + Site" where
  "read_loop parses s [] = Inr s"
| "read_loop parses s (tmplPath # rest) =
     (case parsePath tmplPath of
        Inl err \<Rightarrow> Inl err
      | Inr (uri, d) \<Rightarrow>
          (case addPage parses s uri d None (templates s @ [tmplPath]) of
             Inl err \<Rightarrow> Inl err
           | Inr s' \<Rightarrow> read_loop parses s' rest))"

definition read ::
  "(string \<Rightarrow> failure + string list) \<Rightarrow> (string list \<Rightarrow> bool) \<Rightarrow> Site \<Rightarrow> failure + Site"
where
  "read globf parses s =
     (case getFiles globf s of
        Inl err \<Rightarrow> Inl err
      | Inr filePaths \<Rightarrow> read_loop parses (s\<lparr>pages := Map.empty\<rparr>) filePaths)"

text \<open>\<^verbatim>\<open>New\<close>: an error of \<^verbatim>\<open>read\<close> is fatal, so \<open>Inl\<close> here is the end of the process.\<close>

definition New ::
  "(string \<Rightarrow> failure + string list) \<Rightarrow> (string list \<Rightarrow> bool) \<Rightarrow>
   string \<Rightarrow> string \<Rightarrow> string \<Rightarrow> string list \<Rightarrow> failure + Site"
where
  "New globf parses ttl gl live tmpls =
     read globf parses
       \<lparr>liveDomain = live, title = ttl, glob = gl, templates = tmpls, pages = Map.empty\<rparr>"

definition ChangeURI :: "Site \<Rightarrow> string \<Rightarrow> string \<Rightarrow> failure + Site" where
  "ChangeURI s uri newURI =
     (case pages s uri of
        None \<Rightarrow> Inl (NoPageWithURI uri)
      | Some p \<Rightarrow>
          Inr (s\<lparr>pages := ((pages s)(uri := None))(newURI \<mapsto> p\<lparr>URI := newURI\<rparr>)\<rparr>))"

definition AddRedirect :: "Site \<Rightarrow> string \<Rightarrow> string \<Rightarrow> failure + Site" where
  "AddRedirect s uri redirect =
     (case pages s uri of
        Some p \<Rightarrow> Inl (AlreadyRegistered uri)
      | None \<Rightarrow>
          Inr (s\<lparr>pages := (pages s)(uri \<mapsto>
                \<lparr>Title = title s, Date = date_zero, URI = uri, Data = None,
                 redirectURI = redirect, tmpl = None\<rparr>)\<rparr>))"




subsection \<open>Serving a request\<close>

record request =
  RequestURI :: string

text \<open>
  What \<^verbatim>\<open>ServeHTTP\<close> does to the response writer: \<^verbatim>\<open>http.NotFound\<close>, \<^verbatim>\<open>http.Redirect\<close> with
  its target and status code, the rendered body, the 500 reply followed by \<^verbatim>\<open>log.Fatal\<close>,
  or the nil dereference of a page that has no template.
\<close>

datatype response =
    NotFound
  | Redirect string nat
  | Rendered string
  | InternalServerError
  | NilTemplatePanic

definition StatusFound :: nat where
  "StatusFound = 302"

definition BaseTemplate :: string where
  "BaseTemplate = ''base''"

fun status :: "response \<Rightarrow> nat option" where
  "status NotFound = Some 404"
| "status (Redirect target code) = Some code"
| "status (Rendered body) = Some 200"
| "status InternalServerError = Some 500"
| "status NilTemplatePanic = None"

definition ServeHTTP ::
  "(template \<Rightarrow> string \<Rightarrow> page \<Rightarrow> string option) \<Rightarrow> page \<Rightarrow> request \<Rightarrow> response"
where
  "ServeHTTP exec p r =
     (if URI p \<noteq> RequestURI r then NotFound
      else if redirectURI p \<noteq> [] then Redirect (redirectURI p) StatusFound
      else (case tmpl p of
              None \<Rightarrow> NilTemplatePanic
            | Some t \<Rightarrow>
                (case exec t BaseTemplate p of
                   None \<Rightarrow> InternalServerError
                 | Some body \<Rightarrow> Rendered body)))"

subsection \<open>Invariants of the registry and an example site\<close>

text \<open>Every key of the registry is the \<^verbatim>\<open>URI\<close> field of the page stored under it.\<close>

definition uri_keyed :: "Site \<Rightarrow> bool" where
  "uri_keyed s = (\<forall>k p. pages s k = Some p \<longrightarrow> URI p = k)"

text \<open>
  A disk holding \<^verbatim>\<open>pages/old.tmpl\<close> and \<^verbatim>\<open>pages/about.tmpl\<close>, on which every template
  compiles, and the site that \<^verbatim>\<open>New\<close> builds from it.
\<close>

definition example_glob :: "string \<Rightarrow> failure + string list" where
  "example_glob pattern = Inr [''pages/old.tmpl'', ''pages/about.tmpl'']"

definition example_page :: "string \<Rightarrow> string \<Rightarrow> page" where
  "example_page u file =
     \<lparr>Title = ''Example'', Date = date_zero, URI = u, Data = None, redirectURI = [],
      tmpl = Some (Template [''base.tmpl'', file])\<rparr>"

definition example_site :: Site where
  "example_site =
     \<lparr>liveDomain = ''example.com'', title = ''Example'', glob = ''pages/*.tmpl'',
      templates = [''base.tmpl''],
      pages = [''/old'' \<mapsto> example_page ''/old'' ''pages/old.tmpl'',
               ''/about'' \<mapsto> example_page ''/about'' ''pages/about.tmpl'']\<rparr>"

subsection \<open>Decimal numerals\<close>

text \<open>
  What it is for a string to be an integer written in base 10, apart from any bound on
  its size: an optional sign and then one digit or more. \<open>decimal_value\<close> reads the digits
  from the left; \<open>decimal_int\<close> gives the integer, or \<open>None\<close> for a string that is no
  numeral. \<^verbatim>\<open>ParseInt\<close> is compared with it below.
\<close>

fun decimal_value :: "nat \<Rightarrow> string \<Rightarrow> nat" where
  "decimal_value n [] = n"
| "decimal_value n (d # ds) = decimal_value (n * 10 + digit_val d) ds"

definition decimal_int :: "string \<Rightarrow> int option" where
  "decimal_int s =
     (case s of
        [] \<Rightarrow> None
      | c # cs \<Rightarrow>
          (let ds = (if c = CHR ''+'' \<or> c = CHR ''-'' then cs else s) in
           if ds = [] \<or> \<not> list_all is_digit ds then None
           else Some (if c = CHR ''-'' then - int (decimal_value 0 ds)
                      else int (decimal_value 0 ds))))"

subsection \<open>Template and redirect target of a page\<close>







section \<open>Properties\<close>

subsection \<open>The order on dates\<close>

text \<open>
  C8. \<^verbatim>\<open>before\<close> is the strict lexicographic order on (Year, Month): \<open>a\<close> is before \<open>b\<close>
  exactly when the year of \<open>a\<close> is smaller, or the years are equal and the month of \<open>a\<close> is
  smaller. So 2020-03 is before 2020-05, 2019-12 is before 2020-01, and the zero date is
  before every date whose year is positive.
\<close>

theorem before_lexicographic:
  "(before a b \<longleftrightarrow> Year a < Year b \<or> (Year a = Year b \<and> Month a < Month b))
   \<and> before \<lparr>Year = 2020, Month = 3\<rparr> \<lparr>Year = 2020, Month = 5\<rparr>
   \<and> before \<lparr>Year = 2019, Month = 12\<rparr> \<lparr>Year = 2020, Month = 1\<rparr>
   \<and> (0 < Year d \<longrightarrow> before \<lparr>Year = 0, Month = 0\<rparr> d)"
  by (simp add: before_def)

theorem before_lexicographic_witness:
  "before \<lparr>Year = 2019, Month = 12\<rparr> \<lparr>Year = 2020, Month = 1\<rparr>
   \<and> \<not> before \<lparr>Year = 2020, Month = 1\<rparr> \<lparr>Year = 2019, Month = 12\<rparr>
   \<and> (0::int) < Year \<lparr>Year = 1, Month = 0\<rparr>
   \<and> before \<lparr>Year = 0, Month = 0\<rparr> \<lparr>Year = 1, Month = 0\<rparr>"
  using before_lexicographic
    [of "\<lparr>Year = 2020, Month = 1\<rparr>" "\<lparr>Year = 2019, Month = 12\<rparr>" "\<lparr>Year = 1, Month = 0\<rparr>"]
  by simp

subsection \<open>The example site is what \<^verbatim>\<open>New\<close> builds\<close>

lemma TrimSuffix_append: "TrimSuffix (name @ suf) suf = name"
  by (simp add: TrimSuffix_def HasSuffix_def)

lemma parsePath_old: "parsePath ''pages/old.tmpl'' = Inr (''/old'', date_zero)"
  by (simp add: parsePath_def TrimSuffix_def HasSuffix_def)

lemma parsePath_about: "parsePath ''pages/about.tmpl'' = Inr (''/about'', date_zero)"
  by (simp add: parsePath_def TrimSuffix_def HasSuffix_def)

lemma New_example:
  "New example_glob (\<lambda>files. True) ''Example'' ''pages/*.tmpl'' ''example.com'' [''base.tmpl'']
     = Inr example_site"
  by (simp add: New_def read_def getFiles_def example_glob_def HasPrefix_def
      parsePath_old parsePath_about addPage_def example_site_def example_page_def)

lemma example_site_keyed: "uri_keyed example_site"
  by (simp add: uri_keyed_def example_site_def example_page_def)

lemma example_old: "pages example_site ''/old'' = Some (example_page ''/old'' ''pages/old.tmpl'')"
  by (simp add: example_site_def)

lemma example_about: "pages example_site ''/about'' = Some (example_page ''/about'' ''pages/about.tmpl'')"
  by (simp add: example_site_def)

lemma example_absent: "pages example_site ''/x'' = None"
  by (simp add: example_site_def)

lemma example_dom: "dom (pages example_site) = {''/old'', ''/about''}"
  by (auto simp add: example_site_def)

subsection \<open>Moving a page\<close>

text \<open>
  C5. When the registry holds a page under \<open>oldURI\<close>, \<^verbatim>\<open>ChangeURI(oldURI, newURI)\<close> returns,
  and the registry it leaves holds under \<open>newURI\<close> that page with its \<^verbatim>\<open>URI\<close> field set to
  \<open>newURI\<close>, and holds nothing under \<open>oldURI\<close> when the two differ. When the registry holds
  nothing under \<open>oldURI\<close> the call is fatal.
\<close>

theorem ChangeURI_moves_page:
  "(pages s oldURI = Some p \<longrightarrow>
      (\<exists>s'. ChangeURI s oldURI newURI = Inr s'
          \<and> pages s' newURI = Some (p\<lparr>URI := newURI\<rparr>)
          \<and> URI (p\<lparr>URI := newURI\<rparr>) = newURI
          \<and> (oldURI \<noteq> newURI \<longrightarrow> pages s' oldURI = None)))
   \<and> (pages s oldURI = None \<longrightarrow> ChangeURI s oldURI newURI = Inl (NoPageWithURI oldURI))"
  by (simp add: ChangeURI_def)

theorem ChangeURI_moves_page_witness:
  "pages example_site ''/old'' = Some (example_page ''/old'' ''pages/old.tmpl'')
   \<and> (\<exists>s'. ChangeURI example_site ''/old'' ''/new'' = Inr s'
          \<and> pages s' ''/new'' = Some (example_page ''/new'' ''pages/old.tmpl'')
          \<and> pages s' ''/old'' = None)
   \<and> pages example_site ''/x'' = None
   \<and> ChangeURI example_site ''/x'' ''/new'' = Inl (NoPageWithURI ''/x'')"
  using ChangeURI_moves_page [of example_site "''/old''" "example_page ''/old'' ''pages/old.tmpl''" "''/new''"]
    ChangeURI_moves_page [of example_site "''/x''" "example_page ''/old'' ''pages/old.tmpl''" "''/new''"]
  by (simp add: example_old example_absent example_page_def)

subsection \<open>Serving: not found\<close>

text \<open>
  C3. For every page and every request, \<^verbatim>\<open>ServeHTTP\<close> answers 404 Not Found exactly when the
  raw request URI is not the string in the page's \<^verbatim>\<open>URI\<close> field. A request that differs
  from the page's URI only by a trailing slash, or only by an appended query string, is
  answered 404.
\<close>

theorem ServeHTTP_not_found_iff:
  "(ServeHTTP exec p r = NotFound \<longleftrightarrow> URI p \<noteq> RequestURI r)
   \<and> (status (ServeHTTP exec p r) = Some 404 \<longleftrightarrow> URI p \<noteq> RequestURI r)
   \<and> ServeHTTP exec p \<lparr>RequestURI = URI p @ ''/''\<rparr> = NotFound
   \<and> ServeHTTP exec p \<lparr>RequestURI = URI p @ ''?'' @ q\<rparr> = NotFound"
  by (simp add: ServeHTTP_def StatusFound_def split: option.splits)

theorem ServeHTTP_not_found_iff_witness:
  "ServeHTTP (\<lambda>t name p. Some ''<html>'') (example_page ''/about'' ''pages/about.tmpl'')
      \<lparr>RequestURI = ''/about/''\<rparr> = NotFound
   \<and> ServeHTTP (\<lambda>t name p. Some ''<html>'') (example_page ''/about'' ''pages/about.tmpl'')
      \<lparr>RequestURI = ''/about?lang=en''\<rparr> = NotFound
   \<and> ServeHTTP (\<lambda>t name p. Some ''<html>'') (example_page ''/about'' ''pages/about.tmpl'')
      \<lparr>RequestURI = ''/about''\<rparr> = Rendered ''<html>''"
  using ServeHTTP_not_found_iff [of "\<lambda>t name p. Some ''<html>''" "example_page ''/about'' ''pages/about.tmpl''"
      "\<lparr>RequestURI = ''/about''\<rparr>" "''lang=en''"]
  by (simp add: example_page_def ServeHTTP_def)

subsection \<open>Redirects\<close>

text \<open>
  C4. After \<^verbatim>\<open>AddRedirect(uri, redirect)\<close> on a registry with nothing under \<open>uri\<close>, and with
  a non-empty target such as \<^verbatim>\<open>"/y"\<close>, the page stored under \<open>uri\<close> answers a request whose
  raw request URI is \<open>uri\<close> by \<^verbatim>\<open>http.Redirect\<close> to the target with status 302 Found.
  \<^verbatim>\<open>AddRedirect\<close> with a first argument that is already a key of the registry is fatal.
\<close>

theorem AddRedirect_then_serve:
  "(pages s uri = None \<longrightarrow> redirect \<noteq> [] \<longrightarrow>
      (\<exists>s' p. AddRedirect s uri redirect = Inr s' \<and> pages s' uri = Some p
          \<and> ServeHTTP exec p \<lparr>RequestURI = uri\<rparr> = Redirect redirect 302
          \<and> status (ServeHTTP exec p \<lparr>RequestURI = uri\<rparr>) = Some 302))
   \<and> (pages s uri \<noteq> None \<longrightarrow> AddRedirect s uri redirect = Inl (AlreadyRegistered uri))"
  by (auto simp add: AddRedirect_def ServeHTTP_def StatusFound_def)

theorem AddRedirect_then_serve_witness:
  "pages example_site ''/x'' = None
   \<and> (\<exists>s' p. AddRedirect example_site ''/x'' ''/y'' = Inr s' \<and> pages s' ''/x'' = Some p
          \<and> ServeHTTP (\<lambda>t name p. None) p \<lparr>RequestURI = ''/x''\<rparr> = Redirect ''/y'' 302)
   \<and> pages example_site ''/old'' \<noteq> None
   \<and> AddRedirect example_site ''/old'' ''/y'' = Inl (AlreadyRegistered ''/old'')"
  using AddRedirect_then_serve [of example_site "''/x''" "''/y''" "\<lambda>t name p. None"]
    AddRedirect_then_serve [of example_site "''/old''" "''/y''" "\<lambda>t name p. None"]
  by (auto simp add: example_old example_absent)

subsection \<open>Keys and \<^verbatim>\<open>URI\<close> fields agree\<close>

lemma addPage_keyed: "uri_keyed s \<Longrightarrow> addPage parses s uri d data tmpls = Inr s' \<Longrightarrow> uri_keyed s'"
  by (auto simp add: uri_keyed_def addPage_def Let_def split: if_splits)

lemma AddRedirect_keyed: "uri_keyed s \<Longrightarrow> AddRedirect s uri r = Inr s' \<Longrightarrow> uri_keyed s'"
  by (auto simp add: uri_keyed_def AddRedirect_def split: option.splits if_splits)

lemma ChangeURI_keyed: "uri_keyed s \<Longrightarrow> ChangeURI s uri newURI = Inr s' \<Longrightarrow> uri_keyed s'"
  by (auto simp add: uri_keyed_def ChangeURI_def split: option.splits if_splits)

lemma read_loop_keyed: "uri_keyed s \<Longrightarrow> read_loop parses s ps = Inr s' \<Longrightarrow> uri_keyed s'"
proof (induction ps arbitrary: s)
  case Nil
  then show ?case by simp
next
  case (Cons a ps)
  then show ?case
    by (auto split: sum.splits prod.splits dest: addPage_keyed)
qed

lemma read_keyed: "read globf parses s = Inr s' \<Longrightarrow> uri_keyed s'"
proof -
  assume r: "read globf parses s = Inr s'"
  have e: "uri_keyed (s\<lparr>pages := Map.empty\<rparr>)" by (simp add: uri_keyed_def)
  from r obtain fs where "read_loop parses (s\<lparr>pages := Map.empty\<rparr>) fs = Inr s'"
    by (auto simp add: read_def split: sum.splits)
  with e show ?thesis by (rule read_loop_keyed)
qed

text \<open>
  C9. Every operation that changes the registry keeps the invariant that the page stored
  under a key has that key in its \<^verbatim>\<open>URI\<close> field: \<^verbatim>\<open>addPage\<close>, the loop of \<^verbatim>\<open>read\<close> that
  calls it, \<^verbatim>\<open>AddRedirect\<close> and \<^verbatim>\<open>ChangeURI\<close>. The registry that \<^verbatim>\<open>New\<close> returns has it.
\<close>

theorem registry_keyed_by_URI:
  "(New globf parses ttl gl live tmpls = Inr s' \<longrightarrow> uri_keyed s')
   \<and> (uri_keyed s \<longrightarrow>
        (addPage parses s uri d data tmpls = Inr s' \<longrightarrow> uri_keyed s')
      \<and> (read_loop parses s paths = Inr s' \<longrightarrow> uri_keyed s')
      \<and> (AddRedirect s uri redirect = Inr s' \<longrightarrow> uri_keyed s')
      \<and> (ChangeURI s uri newURI = Inr s' \<longrightarrow> uri_keyed s'))"
  by (auto simp add: New_def
      intro: addPage_keyed read_loop_keyed AddRedirect_keyed ChangeURI_keyed read_keyed)

theorem registry_keyed_by_URI_witness:
  "uri_keyed example_site
   \<and> (\<exists>s'. New example_glob (\<lambda>files. True) ''Example'' ''pages/*.tmpl'' ''example.com''
            [''base.tmpl''] = Inr s' \<and> uri_keyed s')
   \<and> (\<exists>s'. addPage (\<lambda>files. True) example_site ''/new'' date_zero None [''base.tmpl'', ''pages/new.tmpl'']
            = Inr s' \<and> uri_keyed s')
   \<and> (\<exists>s'. read_loop (\<lambda>files. True) example_site [''pages/about.tmpl''] = Inr s' \<and> uri_keyed s')
   \<and> (\<exists>s'. AddRedirect example_site ''/x'' ''/y'' = Inr s' \<and> uri_keyed s')
   \<and> (\<exists>s'. ChangeURI example_site ''/old'' ''/about'' = Inr s' \<and> uri_keyed s')"
proof -
  let ?ok = "\<lambda>files::string list. True"
  have k: "uri_keyed example_site" by (rule example_site_keyed)
  obtain a where a: "addPage ?ok example_site ''/new'' date_zero None [''base.tmpl'', ''pages/new.tmpl''] = Inr a"
    by (simp add: addPage_def)
  obtain b where b: "read_loop ?ok example_site [''pages/about.tmpl''] = Inr b"
    by (simp add: parsePath_about addPage_def)
  obtain c where c: "AddRedirect example_site ''/x'' ''/y'' = Inr c"
    by (simp add: AddRedirect_def example_absent)
  obtain d where d: "ChangeURI example_site ''/old'' ''/about'' = Inr d"
    by (simp add: ChangeURI_def example_old)
  have "uri_keyed a"
    using registry_keyed_by_URI [where s = example_site and s' = a and parses = ?ok
        and uri = "''/new''" and d = date_zero and data = None
        and tmpls = "[''base.tmpl'', ''pages/new.tmpl'']"] k a by simp
  moreover have "uri_keyed b"
    using registry_keyed_by_URI [where s = example_site and s' = b and parses = ?ok
        and paths = "[''pages/about.tmpl'']"] k b by simp
  moreover have "uri_keyed c"
    using registry_keyed_by_URI [where s = example_site and s' = c and uri = "''/x''"
        and redirect = "''/y''"] k c by simp
  moreover have "uri_keyed d"
    using registry_keyed_by_URI [where s = example_site and s' = d and uri = "''/old''"
        and newURI = "''/about''"] k d by simp
  moreover have "uri_keyed example_site"
    using registry_keyed_by_URI [where globf = example_glob and parses = ?ok
        and ttl = "''Example''" and gl = "''pages/*.tmpl''" and live = "''example.com''"
        and tmpls = "[''base.tmpl'']" and s' = example_site] New_example by simp
  ultimately show ?thesis using a b c d New_example by simp
qed

subsection \<open>What \<^verbatim>\<open>ChangeURI\<close> leaves alone\<close>

text \<open>
  C10. \<^verbatim>\<open>ChangeURI(oldURI, newURI)\<close> on a registry holding \<open>oldURI\<close> leaves every entry
  under a key other than \<open>oldURI\<close> and \<open>newURI\<close> as it was. When \<open>newURI\<close> is already a key
  and differs from \<open>oldURI\<close>, the call still returns, the page that was stored under
  \<open>newURI\<close> is replaced by the moved one, and the registry (a Go map, so finite) has one
  entry fewer.
\<close>

theorem ChangeURI_frame:
  "pages s oldURI = Some p \<Longrightarrow>
     (\<exists>s'. ChangeURI s oldURI newURI = Inr s'
        \<and> (\<forall>k. k \<noteq> oldURI \<longrightarrow> k \<noteq> newURI \<longrightarrow> pages s' k = pages s k)
        \<and> (\<forall>q. pages s newURI = Some q \<longrightarrow> newURI \<noteq> oldURI \<longrightarrow> finite (dom (pages s)) \<longrightarrow>
              pages s' newURI = Some (p\<lparr>URI := newURI\<rparr>)
              \<and> Suc (card (dom (pages s'))) = card (dom (pages s))))"
proof -
  assume p: "pages s oldURI = Some p"
  define s' where "s' = s\<lparr>pages := ((pages s)(oldURI := None))(newURI \<mapsto> p\<lparr>URI := newURI\<rparr>)\<rparr>"
  have r: "ChangeURI s oldURI newURI = Inr s'"
    using p by (simp add: ChangeURI_def s'_def)
  have frame: "\<forall>k. k \<noteq> oldURI \<longrightarrow> k \<noteq> newURI \<longrightarrow> pages s' k = pages s k"
    by (simp add: s'_def)
  have over: "pages s' newURI = Some (p\<lparr>URI := newURI\<rparr>)
      \<and> Suc (card (dom (pages s'))) = card (dom (pages s))"
    if q: "pages s newURI = Some q" and ne: "newURI \<noteq> oldURI" and fin: "finite (dom (pages s))" for q
  proof -
    have d: "dom (pages s') = dom (pages s) - {oldURI}"
      using q ne by (auto simp add: s'_def)
    have mem: "oldURI \<in> dom (pages s)" using p by auto
    have "Suc (card (dom (pages s) - {oldURI})) = card (dom (pages s))"
      using fin mem by (rule card_Suc_Diff1)
    then show ?thesis using d by (simp add: s'_def)
  qed
  show ?thesis using r frame over by blast
qed

theorem ChangeURI_frame_witness:
  "pages example_site ''/old'' = Some (example_page ''/old'' ''pages/old.tmpl'')
   \<and> pages example_site ''/about'' = Some (example_page ''/about'' ''pages/about.tmpl'')
   \<and> ''/about'' \<noteq> ''/old''
   \<and> finite (dom (pages example_site))
   \<and> card (dom (pages example_site)) = 2
   \<and> (\<exists>s'. ChangeURI example_site ''/old'' ''/about'' = Inr s'
         \<and> pages s' ''/about'' = Some (example_page ''/about'' ''pages/old.tmpl'')
         \<and> card (dom (pages s')) = 1)"
proof -
  have fin: "finite (dom (pages example_site))" by (simp add: example_dom)
  have c: "card (dom (pages example_site)) = 2" by (simp add: example_dom)
  obtain s' where r: "ChangeURI example_site ''/old'' ''/about'' = Inr s'"
    and o: "pages s' ''/about'' = Some ((example_page ''/old'' ''pages/old.tmpl'')\<lparr>URI := ''/about''\<rparr>)"
    and n: "Suc (card (dom (pages s'))) = card (dom (pages example_site))"
    using ChangeURI_frame [OF example_old, of "''/about''"] example_about fin by auto
  have "card (dom (pages s')) = 1" using n c by simp
  moreover have "(example_page ''/old'' ''pages/old.tmpl'')\<lparr>URI := ''/about''\<rparr>
      = example_page ''/about'' ''pages/old.tmpl''"
    by (simp add: example_page_def)
  ultimately show ?thesis using r o fin c example_old example_about by simp
qed

subsection \<open>\<^verbatim>\<open>ParseInt\<close> reads decimal numerals\<close>

text \<open>
  The digit loop returns a value exactly for a string of digits whose value fits; since
  the accumulator never decreases, an overflow at any step is an overflow of the result.
  So \<^verbatim>\<open>ParseInt\<close> with bit size 0 returns \<open>v\<close> exactly when the string is a decimal
  numeral of value \<open>v\<close> within the range of a 64-bit integer.
\<close>

lemma decimal_value_ge: "n \<le> decimal_value n ds"
proof (induction ds arbitrary: n)
  case Nil
  then show ?case by simp
next
  case (Cons d ds)
  have "n \<le> n * 10 + digit_val d" by simp
  also have "\<dots> \<le> decimal_value (n * 10 + digit_val d) ds" by (rule Cons.IH)
  finally show ?case by simp
qed

lemma cutoff_overflow: "(m::nat) div 10 + 1 \<le> n \<Longrightarrow> m < n * 10"
  by arith

lemma ParseUint_loop_iff:
  "ParseUint_loop M n ds = Inr v \<longleftrightarrow>
     list_all is_digit ds \<and> v = decimal_value n ds \<and> (ds \<noteq> [] \<longrightarrow> v \<le> maxUint64 \<and> v \<le> M)"
proof (induction ds arbitrary: n)
  case Nil
  then show ?case by auto
next
  case (Cons d ds)
  let ?n1 = "n * 10 + digit_val d"
  have ge: "?n1 \<le> decimal_value ?n1 ds" by (rule decimal_value_ge)
  show ?case
  proof (cases "is_digit d")
    case False
    then show ?thesis by simp
  next
    case dig: True
    show ?thesis
    proof (cases "maxUint64 div 10 + 1 \<le> n")
      case True
      then have "maxUint64 < n * 10" by (rule cutoff_overflow)
      then have "maxUint64 < decimal_value ?n1 ds" using ge by linarith
      then show ?thesis using dig True by auto
    next
      case small: False
      show ?thesis
      proof (cases "maxUint64 < ?n1 \<or> M < ?n1")
        case True
        then have "maxUint64 < decimal_value ?n1 ds \<or> M < decimal_value ?n1 ds"
          using ge by linarith
        then show ?thesis using dig small True by (auto simp add: Let_def)
      next
        case False
        then show ?thesis
          using dig small Cons.IH [of ?n1] by (cases ds) (auto simp add: Let_def)
      qed
    qed
  qed
qed

lemma ParseUint_iff:
  "ParseUint s 0 = Inr v \<longleftrightarrow>
     s \<noteq> [] \<and> list_all is_digit s \<and> v = decimal_value 0 s \<and> v \<le> maxUint64"
  by (auto simp add: ParseUint_def IntSize_def maxUint64_def ParseUint_loop_iff)

lemma ParseInt_Inl:
  "s \<noteq> [] \<Longrightarrow>
   ParseUint (if hd s = CHR ''+'' \<or> hd s = CHR ''-'' then tl s else s) 0 = Inl e \<Longrightarrow>
   ParseInt s 0 = Inl e"
  by (simp add: ParseInt_def Let_def)

lemma ParseInt_Inr:
  "s \<noteq> [] \<Longrightarrow>
   ParseUint (if hd s = CHR ''+'' \<or> hd s = CHR ''-'' then tl s else s) 0 = Inr un \<Longrightarrow>
   ParseInt s 0 =
     (if hd s \<noteq> CHR ''-'' \<and> 2 ^ 63 \<le> un then Inl ErrRange
      else if hd s = CHR ''-'' \<and> 2 ^ 63 < un then Inl ErrRange
      else Inr (if hd s = CHR ''-'' then - int un else int un))"
  by (simp add: ParseInt_def Let_def IntSize_def)

lemma ParseInt_iff_decimal:
  "ParseInt s 0 = Inr v \<longleftrightarrow> decimal_int s = Some v \<and> - (2 ^ 63) \<le> v \<and> v < 2 ^ 63"
proof (cases "s = []")
  case True
  then show ?thesis by (simp add: ParseInt_def decimal_int_def)
next
  case ne: False
  define ds where "ds = (if hd s = CHR ''+'' \<or> hd s = CHR ''-'' then tl s else s)"
  define u where "u = decimal_value 0 ds"
  define r where "r = (if hd s = CHR ''-'' then - int u else int u)"
  have mx: "maxUint64 = 2 ^ 64 - 1" by (simp add: maxUint64_def)
  have DI: "decimal_int s = (if ds = [] \<or> \<not> list_all is_digit ds then None else Some r)"
    unfolding ds_def r_def u_def using ne
    by (cases s) (simp_all add: decimal_int_def Let_def)
  show ?thesis
  proof (cases "ParseUint ds 0")
    case (Inl e)
    then have "\<not> (ds \<noteq> [] \<and> list_all is_digit ds \<and> u \<le> maxUint64)"
      using ParseUint_iff [of ds u] by (simp add: u_def)
    then have "decimal_int s = None \<or> \<not> (- (2 ^ 63) \<le> r \<and> r < 2 ^ 63)"
      using DI by (auto simp add: r_def mx)
    moreover have "ParseInt s 0 = Inl e"
      using ne Inl unfolding ds_def by (rule ParseInt_Inl)
    ultimately show ?thesis using DI by (auto split: if_splits)
  next
    case (Inr un)
    then have ok: "ds \<noteq> [] \<and> list_all is_digit ds" and un: "un = u"
      using ParseUint_iff [of ds un] by (simp_all add: u_def)
    have "decimal_int s = Some r" using DI ok by simp
    moreover have "ParseInt s 0 =
        (if hd s \<noteq> CHR ''-'' \<and> 2 ^ 63 \<le> u then Inl ErrRange
         else if hd s = CHR ''-'' \<and> 2 ^ 63 < u then Inl ErrRange
         else Inr r)"
      using ParseInt_Inr [OF ne Inr [unfolded ds_def]] by (simp add: r_def un)
    ultimately show ?thesis by (auto simp add: r_def split: if_splits)
  qed
qed

lemma ParseInt_accepts:
  "decimal_int s = Some v \<Longrightarrow> - (2 ^ 63) \<le> v \<Longrightarrow> v < 2 ^ 63 \<Longrightarrow> ParseInt s 0 = Inr v"
  by (simp add: ParseInt_iff_decimal)

lemma getDate_year_ok:
  "(\<exists>v. ParseInt y 0 = Inr v \<and> 1900 < v \<and> v < 99999)
     \<longleftrightarrow> (\<exists>v. decimal_int y = Some v \<and> 1900 < v \<and> v < 99999)"
  by (auto simp add: ParseInt_iff_decimal)

lemma getDate_month_ok:
  "(\<exists>w. ParseInt m 0 = Inr w \<and> 1 \<le> w \<and> w \<le> 12)
     \<longleftrightarrow> (\<exists>w. decimal_int m = Some w \<and> 1 \<le> w \<and> w \<le> 12)"
  by (auto simp add: ParseInt_iff_decimal)

lemma getDate_BadYear_iff:
  "getDate y m = Inl (BadYear y) \<longleftrightarrow> \<not> (\<exists>v. ParseInt y 0 = Inr v \<and> 1900 < v \<and> v < 99999)"
  by (auto simp add: getDate_def split: sum.splits)

lemma getDate_BadMonth_iff:
  "ParseInt y 0 = Inr v \<Longrightarrow> 1900 < v \<Longrightarrow> v < 99999 \<Longrightarrow>
   getDate y m = Inl (BadMonth m) \<longleftrightarrow> \<not> (\<exists>w. ParseInt m 0 = Inr w \<and> 1 \<le> w \<and> w \<le> 12)"
  by (auto simp add: getDate_def split: sum.splits)

lemma getDate_ok:
  "ParseInt y 0 = Inr v \<Longrightarrow> 1900 < v \<Longrightarrow> v < 99999 \<Longrightarrow>
   ParseInt m 0 = Inr w \<Longrightarrow> 1 \<le> w \<Longrightarrow> w \<le> 12 \<Longrightarrow>
   getDate y m = Inr \<lparr>Year = v, Month = w\<rparr>"
  by (simp add: getDate_def)

subsection \<open>Dates from year and month strings\<close>

lemma decimal_2014: "decimal_int ''2014'' = Some 2014"
  by (simp add: decimal_int_def is_digit_def digit_val_def)

lemma decimal_05: "decimal_int ''05'' = Some 5"
  by (simp add: decimal_int_def is_digit_def digit_val_def)

lemma decimal_1900: "decimal_int ''1900'' = Some 1900"
  by (simp add: decimal_int_def is_digit_def digit_val_def)

lemma decimal_13: "decimal_int ''13'' = Some 13"
  by (simp add: decimal_int_def is_digit_def digit_val_def)

lemma decimal_may: "decimal_int ''may'' = None"
  by (simp add: decimal_int_def is_digit_def digit_val_def)

text \<open>
  C6. \<^verbatim>\<open>getDate(y, m)\<close> fails with the bad-year error exactly when \<open>y\<close> is not a decimal
  integer with a value above 1900 and below 99999 (it does not parse, or its value is at
  most 1900 or at least 99999). When the year is accepted, it fails with the bad-month
  error exactly when \<open>m\<close> is not a decimal integer with a value from 1 to 12. Otherwise it
  returns the date of these two values.
\<close>

theorem getDate_errors:
  "(getDate y m = Inl (BadYear y)
      \<longleftrightarrow> \<not> (\<exists>v. decimal_int y = Some v \<and> 1900 < v \<and> v < 99999))
   \<and> ((\<exists>v. decimal_int y = Some v \<and> 1900 < v \<and> v < 99999) \<longrightarrow>
        (getDate y m = Inl (BadMonth m)
           \<longleftrightarrow> \<not> (\<exists>w. decimal_int m = Some w \<and> 1 \<le> w \<and> w \<le> 12)))
   \<and> (\<forall>v w. decimal_int y = Some v \<and> 1900 < v \<and> v < 99999
          \<and> decimal_int m = Some w \<and> 1 \<le> w \<and> w \<le> 12
        \<longrightarrow> getDate y m = Inr \<lparr>Year = v, Month = w\<rparr>)"
proof (intro conjI impI allI)
  show "getDate y m = Inl (BadYear y)
      \<longleftrightarrow> \<not> (\<exists>v. decimal_int y = Some v \<and> 1900 < v \<and> v < 99999)"
    by (simp only: getDate_BadYear_iff getDate_year_ok)
next
  assume "\<exists>v. decimal_int y = Some v \<and> 1900 < v \<and> v < 99999"
  then obtain v where v: "decimal_int y = Some v" "1900 < v" "v < 99999" by blast
  then have p: "ParseInt y 0 = Inr v" by (intro ParseInt_accepts) simp_all
  show "getDate y m = Inl (BadMonth m)
      \<longleftrightarrow> \<not> (\<exists>w. decimal_int m = Some w \<and> 1 \<le> w \<and> w \<le> 12)"
    using getDate_BadMonth_iff [OF p v(2) v(3), of m] by (simp only: getDate_month_ok)
next
  fix v w
  assume a: "decimal_int y = Some v \<and> 1900 < v \<and> v < 99999
      \<and> decimal_int m = Some w \<and> 1 \<le> w \<and> w \<le> 12"
  then have "ParseInt y 0 = Inr v" "ParseInt m 0 = Inr w"
    by (simp_all add: ParseInt_iff_decimal)
  then show "getDate y m = Inr \<lparr>Year = v, Month = w\<rparr>"
    using a by (simp add: getDate_ok)
qed

theorem getDate_errors_witness:
  "getDate ''2014'' ''05'' = Inr \<lparr>Year = 2014, Month = 5\<rparr>
   \<and> getDate ''1900'' ''05'' = Inl (BadYear ''1900'')
   \<and> getDate ''may'' ''05'' = Inl (BadYear ''may'')
   \<and> getDate ''2014'' ''13'' = Inl (BadMonth ''13'')
   \<and> getDate ''2014'' ''may'' = Inl (BadMonth ''may'')"
  using getDate_errors [of "''2014''" "''05''"] getDate_errors [of "''1900''" "''05''"]
    getDate_errors [of "''may''" "''05''"] getDate_errors [of "''2014''" "''13''"]
    getDate_errors [of "''2014''" "''may''"]
  by (simp add: decimal_2014 decimal_05 decimal_1900 decimal_13 decimal_may)

subsection \<open>Paths of dated pages\<close>

lemma Split_nonempty: "Split s sep \<noteq> []"
  by (induction s) (auto split: list.splits)

lemma Split_no_sep: "sep \<notin> set a \<Longrightarrow> Split a sep = [a]"
  by (induction a) auto

lemma Split_segment: "sep \<notin> set a \<Longrightarrow> Split (a @ sep # rest) sep = a # Split rest sep"
  by (induction a) (auto split: list.splits simp add: Split_nonempty)

lemma Split_four:
  assumes "sep \<notin> set a" "sep \<notin> set b" "sep \<notin> set c" "sep \<notin> set d"
  shows "Split (a @ sep # b @ sep # c @ sep # d) sep = [a, b, c, d]"
  using assms by (simp add: Split_segment Split_no_sep)

lemma parsePath_four:
  assumes "CHR ''/'' \<notin> set dir" "CHR ''/'' \<notin> set y" "CHR ''/'' \<notin> set m" "CHR ''/'' \<notin> set file"
  shows "parsePath (dir @ ''/'' @ y @ ''/'' @ m @ ''/'' @ file) =
     (case getDate y m of
        Inl e \<Rightarrow> Inl e
      | Inr d \<Rightarrow> Inr (''/'' @ y @ ''/'' @ m @ ''/'' @ TrimSuffix file ''.tmpl'', d))"
proof -
  have "Split (dir @ ''/'' @ y @ ''/'' @ m @ ''/'' @ file) (CHR ''/'') = [dir, y, m, file]"
    using Split_four [OF assms] by simp
  then show ?thesis by (cases "getDate y m") (simp_all add: parsePath_def)
qed

lemma slash_not_digit: "\<not> is_digit (CHR ''/'')"
  by (simp add: is_digit_def)

lemma digits_no_slash: "list_all is_digit ds \<Longrightarrow> CHR ''/'' \<notin> set ds"
  using slash_not_digit by (auto simp add: list_all_iff)

lemma decimal_int_no_slash: "decimal_int s = Some v \<Longrightarrow> CHR ''/'' \<notin> set s"
proof (cases s)
  case Nil
  then show ?thesis by simp
next
  case (Cons c cs)
  assume d: "decimal_int s = Some v"
  show ?thesis
  proof (cases "c = CHR ''+'' \<or> c = CHR ''-''")
    case True
    then have "list_all is_digit cs"
      using d Cons by (auto simp add: decimal_int_def Let_def split: if_splits)
    then have "CHR ''/'' \<notin> set cs" by (rule digits_no_slash)
    then show ?thesis using True Cons by auto
  next
    case False
    then have "list_all is_digit s"
      using d Cons by (auto simp add: decimal_int_def Let_def split: if_splits)
    then show ?thesis by (rule digits_no_slash)
  qed
qed

text \<open>
  C1, as the code has it. For a path of exactly four segments
  \<^verbatim>\<open>dir/yyyy/mm/name.tmpl\<close>, where \<open>yyyy\<close> is a decimal integer above 1900 and below 99999
  and \<open>mm\<close> one from 1 to 12, \<^verbatim>\<open>parsePath\<close> succeeds with the URI \<^verbatim>\<open>/yyyy/mm/name\<close> and the
  date of the two values. The URI is built from the second, third and fourth segment:
  the leading directory is not part of it, and the \<^verbatim>\<open>.tmpl\<close> extension is cut off.
\<close>

theorem parsePath_dated:
  assumes "CHR ''/'' \<notin> set dir" and "CHR ''/'' \<notin> set name"
    and "decimal_int yyyy = Some y" and "1900 < y" and "y < 99999"
    and "decimal_int mm = Some m" and "1 \<le> m" and "m \<le> 12"
  shows "parsePath (dir @ ''/'' @ yyyy @ ''/'' @ mm @ ''/'' @ name @ ''.tmpl'')
           = Inr (''/'' @ yyyy @ ''/'' @ mm @ ''/'' @ name, \<lparr>Year = y, Month = m\<rparr>)"
proof -
  have "ParseInt yyyy 0 = Inr y" using assms(3-5) by (simp add: ParseInt_iff_decimal)
  moreover have "ParseInt mm 0 = Inr m" using assms(6-8) by (simp add: ParseInt_iff_decimal)
  ultimately have d: "getDate yyyy mm = Inr \<lparr>Year = y, Month = m\<rparr>"
    using assms(4,5,7,8) by (simp add: getDate_ok)
  have sy: "CHR ''/'' \<notin> set yyyy" using assms(3) by (rule decimal_int_no_slash)
  have sm: "CHR ''/'' \<notin> set mm" using assms(6) by (rule decimal_int_no_slash)
  have sn: "CHR ''/'' \<notin> set (name @ ''.tmpl'')" using assms(2) by simp
  from parsePath_four [OF assms(1) sy sm sn] show ?thesis
    by (simp add: d TrimSuffix_append)
qed

theorem parsePath_dated_witness:
  "parsePath ''pages/2014/05/foo.tmpl'' = Inr (''/2014/05/foo'', \<lparr>Year = 2014, Month = 5\<rparr>)"
  using parsePath_dated [of "''pages''" "''foo''" "''2014''" 2014 "''05''" 5]
  by (simp add: decimal_2014 decimal_05)

text \<open>
  The URI of \<^verbatim>\<open>pages/2014/05/foo.tmpl\<close> is \<^verbatim>\<open>/2014/05/foo\<close>, not \<^verbatim>\<open>/pages/2014/05/foo\<close>.
\<close>

theorem parsePath_dated_counterexample:
  "parsePath ''pages/2014/05/foo.tmpl'' = Inr (''/2014/05/foo'', \<lparr>Year = 2014, Month = 5\<rparr>)
   \<and> parsePath ''pages/2014/05/foo.tmpl'' \<noteq> Inr (''/pages/2014/05/foo'', \<lparr>Year = 2014, Month = 5\<rparr>)"
proof -
  have "parsePath ''pages/2014/05/foo.tmpl'' = Inr (''/2014/05/foo'', \<lparr>Year = 2014, Month = 5\<rparr>)"
    by (simp add: parsePath_def getDate_def ParseInt_def ParseUint_def IntSize_def maxUint64_def
        is_digit_def digit_val_def TrimSuffix_def HasSuffix_def)
  then show ?thesis by simp
qed

subsection \<open>Discovery of the files\<close>








subsection \<open>Template or redirect\<close>
















end
